theory Spec2Isabelle
  imports Main
begin

section \<open>Values, requests and responses\<close>

text \<open>
  The views of \<^verbatim>\<open>tapir/coop/views/shareowner.py\<close> are embedded as functions on an
  explicit world: the tables of the record store, the mails that left the process, and a
  counter that lets the store refuse a write. A value of \<^verbatim>\<open>datetime.date\<close> is
  identified with its ordinal (\<^verbatim>\<open>date.toordinal()\<close>), so that comparing dates is
  comparing integers; primary keys are integers. A Python \<^verbatim>\<open>str\<close> is a
  \<open>string\<close> whose characters are read as the code points U+0000 to U+00FF.
\<close>

type_synonym date = int
type_synonym pk = int

datatype http_method = GET | POST | OtherMethod string

record request =
  req_method :: http_method
  req_csrf_ok :: bool
  req_user :: pk
  req_authenticated :: bool
  req_perms :: "string list"
  req_GET :: "string \<rightharpoonup> string"
  req_today :: date

text \<open>Exceptions that leave a view, as values.\<close>

datatype exn =
    Http404
  | PermissionDenied
  | ValidationError string
  | ValueError
  | AttributeError
  | DatabaseError
  | EmailError
  | BadHeaderError

datatype url = ShareOwnerUrl pk | ShareOwnerInfoUrl pk | TapirUserUrl pk | LoginUrl

section \<open>The record store\<close>

record share_ownership =
  so_id :: pk
  so_owner :: pk
  amount_paid :: int
  start_date :: date
  end_date :: "date option"

text \<open>
  The identity fields that \<^verbatim>\<open>ShareOwnerTable\<close> reads through \<^verbatim>\<open>get_info()\<close>;
  a share owner and a user account both carry them.
\<close>

record user_info =
  first_name :: string
  last_name :: string
  email :: string
  phone_number :: string
  street :: string
  postcode :: string
  city :: string
  country :: string
  preferred_language :: string

record share_owner = user_info +
  owner_id :: pk
  owner_user :: "pk option"
  is_company :: bool
  is_investing :: bool
  company_name :: string

record tapir_user = user_info +
  user_id :: "pk option"
  username :: string

text \<open>
  A log entry keeps what the view passes to \<^verbatim>\<open>populate\<close>: the actor, the user and
  share owner it is filed under, and the payload of its kind. The type \<open>'f\<close> is the type
  of a frozen snapshot, the result of \<^verbatim>\<open>freeze_for_log\<close>.
\<close>

datatype 'f log_payload =
    DeleteShareOwnershipLogEntry share_ownership
  | UpdateShareOwnershipLogEntry pk 'f 'f
  | CreateShareOwnershipsLogEntry int date "date option"

record 'f log_entry =
  le_actor :: pk
  le_user :: "pk option"
  le_share_owner :: "pk option"
  le_payload :: "'f log_payload"

record extra_shares_recap =
  recap_member :: pk
  recap_number_of_shares :: int
  recap_date :: date

record 'f tables =
  share_owners :: "share_owner list"
  share_ownerships :: "share_ownership list"
  tapir_users :: "tapir_user list"
  log_entries :: "'f log_entry list"
  recaps :: "extra_shares_recap list"

datatype email_message =
    ExtraSharesConfirmationEmail int pk
  | TapirAccountCreatedEmail pk

text \<open>
  \<open>fault_after = Some k\<close>: the store accepts \<open>k\<close> more writes and raises on the next
  one; \<open>None\<close>: it accepts every write. \<open>mail_ok\<close>: whether the mail service accepts
  a message.
\<close>

record 'f world =
  tables :: "'f tables"
  outbox :: "email_message list"
  fault_after :: "nat option"
  mail_ok :: bool

section \<open>Effects: a computation returns a value or an exception, and the world\<close>

type_synonym ('f, 'a) action = "'f world \<Rightarrow> (exn + 'a) \<times> 'f world"

definition ret :: "'a \<Rightarrow> ('f, 'a) action" where
  "ret x w = (Inr x, w)"

definition raise :: "exn \<Rightarrow> ('f, 'a) action" where
  "raise e w = (Inl e, w)"

definition seq :: "('f, 'a) action \<Rightarrow> ('a \<Rightarrow> ('f, 'b) action) \<Rightarrow> ('f, 'b) action" where
  "seq m k w = (case m w of (Inl e, w') \<Rightarrow> (Inl e, w') | (Inr x, w') \<Rightarrow> k x w')"

text \<open>A write to the store: refused when the fault counter has run out.\<close>

definition db_write :: "('f tables \<Rightarrow> 'f tables) \<Rightarrow> ('f, unit) action" where
  "db_write f w =
     (case fault_after w of
        None \<Rightarrow> (Inr (), w\<lparr>tables := f (tables w)\<rparr>)
      | Some 0 \<Rightarrow> (Inl DatabaseError, w)
      | Some (Suc k) \<Rightarrow> (Inr (), w\<lparr>tables := f (tables w), fault_after := Some k\<rparr>))"

text \<open>
  \<^verbatim>\<open>with transaction.atomic():\<close> an exception that leaves the block restores the
  tables as they were on entry and is raised again; what is outside the store (the
  outbox) is not restored.
\<close>

definition atomic :: "('f, 'a) action \<Rightarrow> ('f, 'a) action" where
  "atomic body w =
     (case body w of
        (Inl e, w') \<Rightarrow> (Inl e, w'\<lparr>tables := tables w\<rparr>)
      | (Inr x, w') \<Rightarrow> (Inr x, w'))"

definition send_mail :: "email_message \<Rightarrow> ('f, unit) action" where
  "send_mail m w =
     (if mail_ok w then (Inr (), w\<lparr>outbox := outbox w @ [m]\<rparr>) else (Inl EmailError, w))"

section \<open>Responses\<close>

text \<open>
  The number of shares on a document is either the raw query parameter or a count;
  a document is what the \<^verbatim>\<open>pdfs\<close> module is asked to render.
\<close>

datatype num_shares_arg = FromQuery string | Counted nat

datatype document =
    MembershipConfirmationPdf share_owner num_shares_arg date
  | ConfirmationExtraSharesPdf share_owner string date

datatype response =
    HttpResponseRedirect url
  | HttpResponseForbidden string
  | HttpResponseNotAllowed
  | HttpResponsePdf string document
  | HttpResponseList "share_owner list"
  | HttpResponseForm
  | HttpResponseOptions

type_synonym ('f, 'a) view = "request \<Rightarrow> 'a \<Rightarrow> ('f, response) action"

section \<open>Decorators and shortcuts of the web framework\<close>

definition require_POST :: "('f, 'a) view \<Rightarrow> ('f, 'a) view" where
  "require_POST view request a =
     (if req_method request = POST then view request a else ret HttpResponseNotAllowed)"

definition require_GET :: "('f, 'a) view \<Rightarrow> ('f, 'a) view" where
  "require_GET view request a =
     (if req_method request = GET then view request a else ret HttpResponseNotAllowed)"

text \<open>The CSRF token is checked on every method that is not a safe one.\<close>

definition safe_method :: "http_method \<Rightarrow> bool" where
  "safe_method m =
     (m = GET \<or> m = OtherMethod ''HEAD'' \<or> m = OtherMethod ''OPTIONS'' \<or> m = OtherMethod ''TRACE'')"

definition csrf_protect :: "('f, 'a) view \<Rightarrow> ('f, 'a) view" where
  "csrf_protect view request a =
     (if safe_method (req_method request) \<or> req_csrf_ok request then view request a
      else ret (HttpResponseForbidden ''CSRF verification failed.''))"

definition has_perm :: "request \<Rightarrow> string \<Rightarrow> bool" where
  "has_perm request perm = (perm \<in> set (req_perms request))"

text \<open>
  \<^verbatim>\<open>@permission_required(perm)\<close> with its default \<^verbatim>\<open>raise_exception=False\<close>:
  a user without the permission is sent to the login page and the view is not called.
\<close>

definition permission_required :: "string \<Rightarrow> ('f, 'a) view \<Rightarrow> ('f, 'a) view" where
  "permission_required perm view request a =
     (if has_perm request perm then view request a else ret (HttpResponseRedirect LoginUrl))"

text \<open>
  \<^verbatim>\<open>PermissionRequiredMixin.dispatch\<close>: without the permission, a logged-in user gets
  \<^verbatim>\<open>PermissionDenied\<close> and an anonymous one is sent to the login page.
\<close>

definition PermissionRequiredMixin_dispatch :: "string \<Rightarrow> ('f, 'a) view \<Rightarrow> ('f, 'a) view" where
  "PermissionRequiredMixin_dispatch perm handler request a =
     (if has_perm request perm then handler request a
      else if req_authenticated request then raise PermissionDenied
      else ret (HttpResponseRedirect LoginUrl))"

definition get_object_or_404 :: "('f tables \<Rightarrow> 'r list) \<Rightarrow> ('r \<Rightarrow> pk) \<Rightarrow> pk \<Rightarrow> ('f, 'r) action" where
  "get_object_or_404 table key k w =
     (case find (\<lambda>r. key r = k) (table (tables w)) of
        None \<Rightarrow> raise Http404 w
      | Some r \<Rightarrow> ret r w)"

section \<open>Deleting a share ownership\<close>

definition save_log_entry :: "'f log_entry \<Rightarrow> ('f, unit) action" where
  "save_log_entry e = db_write (\<lambda>t. t\<lparr>log_entries := log_entries t @ [e]\<rparr>)"

definition delete_share_ownership :: "share_ownership \<Rightarrow> ('f, unit) action" where
  "delete_share_ownership s =
     db_write (\<lambda>t. t\<lparr>share_ownerships := filter (\<lambda>r. so_id r \<noteq> so_id s) (share_ownerships t)\<rparr>)"

text \<open>
  \<^verbatim>\<open>share_ownership_delete\<close> (lines 155 to 169), under its three decorators. The log
  entry is populated with the share ownership as it is before the deletion.
\<close>

definition delete_log_entry :: "request \<Rightarrow> share_ownership \<Rightarrow> 'f log_entry" where
  "delete_log_entry request share_ownership =
     \<lparr>le_actor = req_user request, le_user = None,
      le_share_owner = Some (so_owner share_ownership),
      le_payload = DeleteShareOwnershipLogEntry share_ownership\<rparr>"

definition share_ownership_delete_view :: "('f, pk) view" where
  "share_ownership_delete_view request k =
     seq (get_object_or_404 share_ownerships so_id k) (\<lambda>share_ownership.
       let owner = so_owner share_ownership in
       seq (atomic
              (seq (save_log_entry (delete_log_entry request share_ownership))
                   (\<lambda>_. delete_share_ownership share_ownership)))
           (\<lambda>_. ret (HttpResponseRedirect (ShareOwnerUrl owner))))"

definition share_ownership_delete :: "('f, pk) view" where
  "share_ownership_delete =
     require_POST (csrf_protect (permission_required ''coop.admin'' share_ownership_delete_view))"

section \<open>Editing a share ownership\<close>

text \<open>
  \<^verbatim>\<open>Model.save()\<close> of an object with a primary key: the row with that key is
  replaced, and the object is inserted when there is none.
\<close>

definition save_share_ownership :: "share_ownership \<Rightarrow> ('f, unit) action" where
  "save_share_ownership s =
     db_write (\<lambda>t. t\<lparr>share_ownerships :=
        (if \<exists>r \<in> set (share_ownerships t). so_id r = so_id s
         then map (\<lambda>r. if so_id r = so_id s then s else r) (share_ownerships t)
         else share_ownerships t @ [s])\<rparr>)"

definition update_log_entry :: "request \<Rightarrow> share_ownership \<Rightarrow> 'f \<Rightarrow> 'f \<Rightarrow> 'f log_entry" where
  "update_log_entry request share_ownership old_frozen new_frozen =
     \<lparr>le_actor = req_user request, le_user = None,
      le_share_owner = Some (so_owner share_ownership),
      le_payload = UpdateShareOwnershipLogEntry (so_id share_ownership) old_frozen new_frozen\<rparr>"

text \<open>
  \<^verbatim>\<open>ShareOwnershipUpdateView.form_valid\<close> (lines 83 to 98). \<open>freeze_for_log\<close> is
  \<^verbatim>\<open>tapir.log.util.freeze_for_log\<close>, a parameter; \<open>old_object_frozen\<close> is the
  attribute that \<^verbatim>\<open>UpdateViewLogMixin\<close> sets when the object is loaded; \<open>instance\<close>
  is \<^verbatim>\<open>form.instance\<close>, the object with the cleaned form data applied. The inherited
  \<^verbatim>\<open>form_valid\<close> saves the instance and redirects to the success URL, the page of
  the owner.
\<close>

definition super_form_valid :: "share_ownership \<Rightarrow> ('f, response) action" where
  "super_form_valid instance =
     seq (save_share_ownership instance)
         (\<lambda>_. ret (HttpResponseRedirect (ShareOwnerUrl (so_owner instance))))"

definition ShareOwnershipUpdateView_form_valid ::
  "(share_ownership \<Rightarrow> 'f) \<Rightarrow> request \<Rightarrow> 'f \<Rightarrow> share_ownership \<Rightarrow> ('f, response) action" where
  "ShareOwnershipUpdateView_form_valid freeze_for_log request old_object_frozen instance =
     atomic
       (seq (super_form_valid instance) (\<lambda>response.
          let new_frozen = freeze_for_log instance in
          seq (if old_object_frozen \<noteq> new_frozen
               then save_log_entry (update_log_entry request instance old_object_frozen new_frozen)
               else ret ())
              (\<lambda>_. ret response)))"

text \<open>
  The edit view is a \<^verbatim>\<open>PermissionRequiredMixin\<close> with
  \<^verbatim>\<open>permission_required = "coop.manage"\<close> (line 81); \<open>handler\<close> is what runs once
  the permission check has passed.
\<close>

definition ShareOwnershipUpdateView_dispatch :: "('f, pk) view \<Rightarrow> ('f, pk) view" where
  "ShareOwnershipUpdateView_dispatch handler =
     PermissionRequiredMixin_dispatch ''coop.manage'' handler"

text \<open>A snapshot that renders every field of a share ownership.\<close>

definition sample_freeze :: "share_ownership \<Rightarrow> pk \<times> pk \<times> int \<times> date \<times> date option" where
  "sample_freeze s = (so_id s, so_owner s, amount_paid s, start_date s, end_date s)"

section \<open>Confirmation documents\<close>

text \<open>
  Parameters of the two views: \<open>get_display_name\<close> is
  \<^verbatim>\<open>owner.get_info().get_display_name()\<close>; \<open>strptime\<close> is
  \<^verbatim>\<open>datetime.datetime.strptime(value, format).date()\<close>, \<open>None\<close> when it raises
  \<^verbatim>\<open>ValueError\<close>; \<open>get_active_share_ownerships\<close> is the method of that name of
  \<^verbatim>\<open>ShareOwner\<close>, evaluated on the tables. \<open>req_GET\<close> is \<^verbatim>\<open>request.GET\<close> read as
  a dictionary, and \<open>req_today\<close> is \<^verbatim>\<open>timezone.now().date()\<close>.
\<close>

text \<open>
  \<^verbatim>\<open>response["Content-Disposition"] = value\<close>: the framework refuses a header value
  that holds a carriage return or a line feed, with \<^verbatim>\<open>BadHeaderError\<close>.
  \<open>content_disposition\<close> is \<^verbatim>\<open>'filename="{}"'.format(filename)\<close>.
\<close>

definition content_disposition :: "string \<Rightarrow> string" where
  "content_disposition filename = ''filename='' @ [CHR 0x22] @ filename @ [CHR 0x22]"

definition set_header :: "string \<Rightarrow> ('f, unit) action" where
  "set_header v =
     (if CHR 0x0A \<in> set v \<or> CHR 0x0D \<in> set v then raise BadHeaderError else ret ())"

definition parse_date :: "(string \<Rightarrow> string \<Rightarrow> date option) \<Rightarrow> string \<Rightarrow> ('f, date) action" where
  "parse_date strptime v =
     (case strptime v ''%d.%m.%Y'' of None \<Rightarrow> raise ValueError | Some d \<Rightarrow> ret d)"



text \<open>
  \<^verbatim>\<open>shareowner_extra_shares_confirmation\<close> (lines 329 to 354). The response is
  created and its \<^verbatim>\<open>Content-Disposition\<close> header set before the parameters are
  checked.
\<close>

definition shareowner_extra_shares_confirmation_view ::
  "(share_owner \<Rightarrow> string) \<Rightarrow> (string \<Rightarrow> string \<Rightarrow> date option) \<Rightarrow> ('f, pk) view" where
  "shareowner_extra_shares_confirmation_view get_display_name strptime request k =
     seq (get_object_or_404 share_owners owner_id k) (\<lambda>share_owner.
       let filename = ''Best'' @ [CHR 0xE4] @ ''tigung Erwerb Anteile '' @ get_display_name share_owner
                        @ ''.pdf'' in
       seq (set_header (content_disposition filename)) (\<lambda>_.
       if req_GET request ''num_shares'' = None
       then raise (ValidationError ''Missing parameter : num_shares'')
       else let num_shares = the (req_GET request ''num_shares'') in
       if req_GET request ''date'' = None
       then raise (ValidationError ''Missing parameter : date'')
       else seq (parse_date strptime (the (req_GET request ''date''))) (\<lambda>date.
       ret (HttpResponsePdf filename (ConfirmationExtraSharesPdf share_owner num_shares date)))))"

definition shareowner_extra_shares_confirmation ::
  "(share_owner \<Rightarrow> string) \<Rightarrow> (string \<Rightarrow> string \<Rightarrow> date option) \<Rightarrow> ('f, pk) view" where
  "shareowner_extra_shares_confirmation get_display_name strptime =
     require_GET (permission_required ''coop.manage''
       (shareowner_extra_shares_confirmation_view get_display_name strptime))"



section \<open>Adding shares to a share owner\<close>

definition fresh_pk :: "pk list \<Rightarrow> pk" where
  "fresh_pk ids = fold max ids 0 + 1"

text \<open>\<^verbatim>\<open>ShareOwnership.objects.create(...)\<close>: a new row under a fresh primary key.\<close>

definition create_share_ownership :: "pk \<Rightarrow> int \<Rightarrow> date \<Rightarrow> date option \<Rightarrow> ('f, unit) action" where
  "create_share_ownership owner paid sd ed =
     db_write (\<lambda>t. t\<lparr>share_ownerships := share_ownerships t @
        [\<lparr>so_id = fresh_pk (map so_id (share_ownerships t)), so_owner = owner,
          amount_paid = paid, start_date = sd, end_date = ed\<rparr>]\<rparr>)"

text \<open>The loop \<^verbatim>\<open>for _ in range(n)\<close> around the creation.\<close>

fun create_share_ownerships :: "nat \<Rightarrow> pk \<Rightarrow> date \<Rightarrow> date option \<Rightarrow> ('f, unit) action" where
  "create_share_ownerships 0 owner sd ed = ret ()"
| "create_share_ownerships (Suc n) owner sd ed =
     seq (create_share_ownership owner 0 sd ed) (\<lambda>_. create_share_ownerships n owner sd ed)"

definition create_recap :: "extra_shares_recap \<Rightarrow> ('f, unit) action" where
  "create_recap r = db_write (\<lambda>t. t\<lparr>recaps := recaps t @ [r]\<rparr>)"

definition create_log_entry :: "request \<Rightarrow> share_owner \<Rightarrow> int \<Rightarrow> date \<Rightarrow> date option \<Rightarrow> 'f log_entry" where
  "create_log_entry request share_owner num_shares sd ed =
     \<lparr>le_actor = req_user request, le_user = owner_user share_owner,
      le_share_owner = Some (owner_id share_owner),
      le_payload = CreateShareOwnershipsLogEntry num_shares sd ed\<rparr>"

text \<open>
  \<^verbatim>\<open>ShareOwnershipCreateMultipleView.form_valid\<close> (lines 116 to 149); the three
  arguments after the key are the cleaned data of the form. The mail is sent after the
  \<^verbatim>\<open>with\<close> block has been left; the inherited \<^verbatim>\<open>form_valid\<close> redirects to the
  success URL, for which the share owner is looked up once more.
\<close>

definition ShareOwnershipCreateMultipleView_form_valid ::
  "request \<Rightarrow> pk \<Rightarrow> int \<Rightarrow> date \<Rightarrow> date option \<Rightarrow> ('f, response) action" where
  "ShareOwnershipCreateMultipleView_form_valid request shareowner_pk num_shares sd ed =
     seq (get_object_or_404 share_owners owner_id shareowner_pk) (\<lambda>share_owner.
     seq (atomic
            (seq (save_log_entry (create_log_entry request share_owner num_shares sd ed)) (\<lambda>_.
             seq (create_share_ownerships (nat num_shares) (owner_id share_owner) sd ed) (\<lambda>_.
             create_recap \<lparr>recap_member = owner_id share_owner,
                           recap_number_of_shares = num_shares,
                           recap_date = req_today request\<rparr>)))) (\<lambda>_.
     seq (send_mail (ExtraSharesConfirmationEmail num_shares (owner_id share_owner))) (\<lambda>_.
     seq (get_object_or_404 share_owners owner_id shareowner_pk) (\<lambda>owner.
     ret (HttpResponseRedirect (ShareOwnerInfoUrl (owner_id owner)))))))"

section \<open>Granting a user account to a share owner\<close>

text \<open>\<^verbatim>\<open>CreateUserFromShareOwnerView.dispatch\<close> (lines 248 to 256).\<close>

definition CreateUserFromShareOwnerView_dispatch :: "('f, pk) view \<Rightarrow> ('f, pk) view" where
  "CreateUserFromShareOwnerView_dispatch super_dispatch request shareowner_pk =
     seq (get_object_or_404 share_owners owner_id shareowner_pk) (\<lambda>owner.
       if owner_user owner \<noteq> None
       then ret (HttpResponseForbidden ''This ShareOwner already has a User'')
       else if is_company owner
       then ret (HttpResponseForbidden ''This ShareOwner is a company'')
       else super_dispatch request shareowner_pk)"

text \<open>
  Modelled from the spec: \<^verbatim>\<open>tapir.utils.models.copy_user_info\<close> and
  \<^verbatim>\<open>ShareOwner.blank_info_fields\<close> are not part of the sources at hand. Converting an
  owner to the account-linked state copies the identity fields of the owner to the account
  and then blanks the copies on the owner.
\<close>

definition copy_user_info :: "share_owner \<Rightarrow> tapir_user \<Rightarrow> tapir_user" where
  "copy_user_info source target =
     target\<lparr>first_name := first_name source, last_name := last_name source,
            email := email source, phone_number := phone_number source,
            street := street source, postcode := postcode source, city := city source,
            country := country source, preferred_language := preferred_language source\<rparr>"

definition blank_info_fields :: "share_owner \<Rightarrow> share_owner" where
  "blank_info_fields owner =
     owner\<lparr>first_name := [], last_name := [], email := [], phone_number := [],
           street := [], postcode := [], city := [], country := [], preferred_language := []\<rparr>"

text \<open>\<^verbatim>\<open>TapirUser()\<close>: an account with no primary key and empty fields.\<close>

definition TapirUser_new :: tapir_user where
  "TapirUser_new =
     \<lparr>first_name = [], last_name = [], email = [], phone_number = [], street = [],
      postcode = [], city = [], country = [], preferred_language = [],
      user_id = None, username = []\<rparr>"

text \<open>\<^verbatim>\<open>get_form_kwargs\<close> (lines 258 to 264): the instance the form is bound to.\<close>

definition CreateUserFromShareOwnerView_get_form_kwargs :: "share_owner \<Rightarrow> tapir_user" where
  "CreateUserFromShareOwnerView_get_form_kwargs owner = copy_user_info owner TapirUser_new"

text \<open>
  The form has the fields \<^verbatim>\<open>first_name\<close>, \<^verbatim>\<open>last_name\<close> and \<^verbatim>\<open>username\<close>; a
  valid form writes its cleaned data over these fields of its instance.
\<close>

record account_form =
  form_first_name :: string
  form_last_name :: string
  form_username :: string

definition construct_instance :: "account_form \<Rightarrow> tapir_user \<Rightarrow> tapir_user" where
  "construct_instance form instance =
     instance\<lparr>first_name := form_first_name form, last_name := form_last_name form,
              username := form_username form\<rparr>"

text \<open>
  Saving an account that has no primary key inserts it under a fresh one, which is
  returned; saving a share owner replaces the row with its key.
\<close>

definition create_tapir_user :: "tapir_user \<Rightarrow> ('f, pk) action" where
  "create_tapir_user u w =
     (let new_pk = fresh_pk (concat (map (\<lambda>r. case user_id r of None \<Rightarrow> [] | Some i \<Rightarrow> [i])
                                          (tapir_users (tables w))))
      in seq (db_write (\<lambda>t. t\<lparr>tapir_users := tapir_users t @ [u\<lparr>user_id := Some new_pk\<rparr>]\<rparr>))
             (\<lambda>_. ret new_pk) w)"

definition save_share_owner :: "share_owner \<Rightarrow> ('f, unit) action" where
  "save_share_owner owner =
     db_write (\<lambda>t. t\<lparr>share_owners :=
        (if \<exists>r \<in> set (share_owners t). owner_id r = owner_id owner
         then map (\<lambda>r. if owner_id r = owner_id owner then owner else r) (share_owners t)
         else share_owners t @ [owner])\<rparr>)"

text \<open>
  \<^verbatim>\<open>LogEntry.objects.filter(share_owner=owner).update(user=..., share_owner=None)\<close>:
  the log entries filed under the owner are filed under the account.
\<close>

definition move_log_entries :: "pk \<Rightarrow> pk \<Rightarrow> ('f, unit) action" where
  "move_log_entries owner new_user =
     db_write (\<lambda>t. t\<lparr>log_entries :=
        map (\<lambda>e. if le_share_owner e = Some owner
                  then e\<lparr>le_user := Some new_user, le_share_owner := None\<rparr> else e)
            (log_entries t)\<rparr>)"

text \<open>
  \<^verbatim>\<open>CreateUserFromShareOwnerView.form_valid\<close> (lines 266 to 279); \<open>form_instance\<close>
  is \<^verbatim>\<open>form.instance\<close>. The inherited \<^verbatim>\<open>form_valid\<close> saves the instance and
  redirects to the page of the new account. The mail is sent inside the \<^verbatim>\<open>with\<close>
  block.
\<close>

definition CreateUserFromShareOwnerView_form_valid ::
  "request \<Rightarrow> pk \<Rightarrow> tapir_user \<Rightarrow> ('f, response) action" where
  "CreateUserFromShareOwnerView_form_valid request shareowner_pk form_instance =
     atomic
       (seq (create_tapir_user form_instance) (\<lambda>new_pk.
        let response = HttpResponseRedirect (TapirUserUrl new_pk) in
        seq (get_object_or_404 share_owners owner_id shareowner_pk) (\<lambda>owner.
        let owner = owner\<lparr>owner_user := Some new_pk\<rparr>;
            owner = blank_info_fields owner in
        seq (save_share_owner owner) (\<lambda>_.
        seq (move_log_entries (owner_id owner) new_pk) (\<lambda>_.
        seq (send_mail (TapirAccountCreatedEmail new_pk)) (\<lambda>_.
        ret response))))))"

text \<open>
  The POST handler of the create view: the form is bound to the instance of
  \<^verbatim>\<open>get_form_kwargs\<close>; \<open>form = None\<close> is a form that does not validate, which is
  shown again.
\<close>

definition CreateUserFromShareOwnerView_post :: "account_form option \<Rightarrow> ('f, pk) view" where
  "CreateUserFromShareOwnerView_post form request shareowner_pk =
     seq (get_object_or_404 share_owners owner_id shareowner_pk) (\<lambda>owner.
       let instance = CreateUserFromShareOwnerView_get_form_kwargs owner in
       case form of
         None \<Rightarrow> ret HttpResponseForm
       | Some data \<Rightarrow>
           CreateUserFromShareOwnerView_form_valid request shareowner_pk
             (construct_instance data instance))"

text \<open>
  \<^verbatim>\<open>View.dispatch\<close> of a form view: GET and HEAD show the form, POST and PUT process
  it, OPTIONS is answered by the framework, any other method is not allowed.
\<close>

definition FormView_dispatch :: "('f, 'a) view \<Rightarrow> ('f, 'a) view \<Rightarrow> ('f, 'a) view" where
  "FormView_dispatch get post request a =
     (if req_method request = GET \<or> req_method request = OtherMethod ''HEAD'' then get request a
      else if req_method request = POST \<or> req_method request = OtherMethod ''PUT''
      then post request a
      else if req_method request = OtherMethod ''OPTIONS'' then ret HttpResponseOptions
      else ret HttpResponseNotAllowed)"

definition CreateUserFromShareOwnerView :: "account_form option \<Rightarrow> ('f, pk) view" where
  "CreateUserFromShareOwnerView form =
     CreateUserFromShareOwnerView_dispatch
       (PermissionRequiredMixin_dispatch ''coop.manage''
          (FormView_dispatch (\<lambda>request shareowner_pk. ret HttpResponseForm)
             (CreateUserFromShareOwnerView_post form)))"

section \<open>Searching the roster by name or member number\<close>

text \<open>
  \<^verbatim>\<open>str.isdigit()\<close> holds for a string that is not empty and whose characters all
  have the Unicode property of a digit. Among the code points U+0000 to U+00FF these are
  the ten decimal digits and the superscripts U+00B2, U+00B3 and U+00B9.
\<close>

definition is_decimal_char :: "char \<Rightarrow> bool" where
  "is_decimal_char c = (48 \<le> (of_char c :: nat) \<and> (of_char c :: nat) \<le> 57)"

definition is_digit_char :: "char \<Rightarrow> bool" where
  "is_digit_char c =
     (is_decimal_char c \<or> (of_char c :: nat) = 178 \<or> (of_char c :: nat) = 179 \<or>
      (of_char c :: nat) = 185)"

definition isdigit :: "string \<Rightarrow> bool" where
  "isdigit s = (s \<noteq> [] \<and> list_all is_digit_char s)"

text \<open>
  \<^verbatim>\<open>int(value)\<close> for a string on which \<^verbatim>\<open>isdigit\<close> holds (the filters pass it no
  other string): the value in base ten when every character is a decimal digit;
  \<^verbatim>\<open>ValueError\<close>, here \<open>None\<close>, when a character is not. The bound that recent
  interpreters put on the number of digits of the string is left out.
\<close>

definition decimal_value :: "string \<Rightarrow> int" where
  "decimal_value s = foldl (\<lambda>n c. 10 * n + (int (of_char c) - 48)) 0 s"

definition int_of_digits :: "string \<Rightarrow> int option" where
  "int_of_digits s =
     (if s \<noteq> [] \<and> list_all is_decimal_char s then Some (decimal_value s) else None)"

text \<open>
  A queryset is the list of its rows. \<^verbatim>\<open>ShareOwnerFilter.display_name_filter\<close>
  (lines 587 to 594); \<open>with_name\<close> is the method of that name of the queryset class.
\<close>

definition ShareOwnerFilter_display_name_filter ::
  "(share_owner list \<Rightarrow> string \<Rightarrow> share_owner list) \<Rightarrow>
   share_owner list \<Rightarrow> string \<Rightarrow> string \<Rightarrow> exn + share_owner list" where
  "ShareOwnerFilter_display_name_filter with_name queryset name v =
     (if isdigit v
      then (case int_of_digits v of
              None \<Rightarrow> Inl ValueError
            | Some n \<Rightarrow> Inr (filter (\<lambda>owner. owner_id owner = n) queryset))
      else Inr (remdups (with_name queryset v)))"

text \<open>\<^verbatim>\<open>ShareOwnerFilterWelcomeDesk.display_name_filter\<close> (lines 827 to 835).\<close>

definition ShareOwnerFilterWelcomeDesk_display_name_filter ::
  "(share_owner list \<Rightarrow> string \<Rightarrow> share_owner list) \<Rightarrow>
   share_owner list \<Rightarrow> string \<Rightarrow> string \<Rightarrow> exn + share_owner list" where
  "ShareOwnerFilterWelcomeDesk_display_name_filter with_name queryset name v =
     (if v = [] then Inr []
      else if isdigit v
      then (case int_of_digits v of
              None \<Rightarrow> Inl ValueError
            | Some n \<Rightarrow> Inr (filter (\<lambda>owner. owner_id owner = n) queryset))
      else Inr (with_name queryset v))"

text \<open>
  Modelled from the spec: \<^verbatim>\<open>ShareOwnerQuerySet.with_name\<close> is not part of the sources at
  hand. The name search keeps the owners whose name contains the search term, letters
  compared without regard to case; \<open>name_of\<close> gives the name of an owner.
\<close>

definition lower_char :: "char \<Rightarrow> char" where
  "lower_char c =
     (let n = (of_char c :: nat)
      in if (65 \<le> n \<and> n \<le> 90) \<or> (192 \<le> n \<and> n \<le> 222 \<and> n \<noteq> 215)
         then char_of (n + 32) else c)"

fun starts_with :: "string \<Rightarrow> string \<Rightarrow> bool" where
  "starts_with s [] = True"
| "starts_with [] (p # ps) = False"
| "starts_with (c # cs) (p # ps) = (c = p \<and> starts_with cs ps)"

fun contains_str :: "string \<Rightarrow> string \<Rightarrow> bool" where
  "contains_str [] t = (t = [])"
| "contains_str (c # cs) t = (starts_with (c # cs) t \<or> contains_str cs t)"

definition icontains :: "string \<Rightarrow> string \<Rightarrow> bool" where
  "icontains s t = contains_str (map lower_char s) (map lower_char t)"

definition with_name_spec ::
  "(share_owner \<Rightarrow> string) \<Rightarrow> share_owner list \<Rightarrow> string \<Rightarrow> share_owner list" where
  "with_name_spec name_of queryset v = filter (\<lambda>owner. icontains (name_of owner) v) queryset"

section \<open>The roster list\<close>

text \<open>\<^verbatim>\<open>QuerySet.first()\<close>: the first row, \<^verbatim>\<open>None\<close> when there is none.\<close>

definition first :: "'a list \<Rightarrow> 'a option" where
  "first xs = (case xs of [] \<Rightarrow> None | x # _ \<Rightarrow> Some x)"

text \<open>
  \<^verbatim>\<open>ShareOwnerListView.get\<close> (lines 675 to 682). The inherited \<^verbatim>\<open>get\<close> applies
  the filter set to the queryset of the view (every share owner), stores the result as
  \<^verbatim>\<open>object_list\<close> and renders it; \<open>filterset\<close> and \<open>render\<close> are parameters.
  \<^verbatim>\<open>get_table_data()\<close> is the object list.
\<close>

definition ShareOwnerListView_get ::
  "(share_owner list \<Rightarrow> exn + share_owner list) \<Rightarrow> (share_owner list \<Rightarrow> response) \<Rightarrow>
   ('f, unit) view" where
  "ShareOwnerListView_get filterset render request a w =
     (case filterset (share_owners (tables w)) of
        Inl e \<Rightarrow> raise e w
      | Inr object_list \<Rightarrow>
          let response = render object_list in
          if length object_list = 1
          then (case first object_list of
                  None \<Rightarrow> raise AttributeError w
                | Some owner \<Rightarrow> ret (HttpResponseRedirect (ShareOwnerUrl (owner_id owner))) w)
          else ret response w)"

section \<open>The filter sets\<close>

text \<open>
  What the roster filters ask of the queryset classes and of the shift subsystem, as
  parameters: the queryset methods \<^verbatim>\<open>with_name\<close>, \<^verbatim>\<open>with_status\<close> and
  \<^verbatim>\<open>with_fully_paid\<close>; the primary keys of the users that the manager of
  \<^verbatim>\<open>TapirUser\<close> returns for an attendance mode, for a capability required by a slot they
  are registered to, and for a capability they have; the users with an attendance template in
  a shift group of a given name; the share price; the share ownerships in the store; and the
  model fields that the record \<open>share_owner\<close> does not carry.
\<close>

record roster_queries =
  q_with_name :: "share_owner list \<Rightarrow> string \<Rightarrow> share_owner list"
  q_with_status :: "share_owner list \<Rightarrow> string \<Rightarrow> share_owner list"
  q_with_fully_paid :: "share_owner list \<Rightarrow> bool \<Rightarrow> share_owner list"
  q_with_shift_attendance_mode :: "string \<Rightarrow> pk list"
  q_registered_to_shift_slot_with_capability :: "string \<Rightarrow> pk list"
  q_has_capability :: "string \<Rightarrow> pk list"
  q_abcd_week :: "string \<Rightarrow> pk list"
  q_COOP_SHARE_PRICE :: int
  q_share_ownerships :: "share_ownership list"
  q_attended_welcome_session :: "share_owner \<Rightarrow> bool"
  q_ratenzahlung :: "share_owner \<Rightarrow> bool"
  q_paid_membership_fee :: "share_owner \<Rightarrow> bool"

text \<open>\<^verbatim>\<open>user__in=users\<close>: the owner is linked to one of the users.\<close>

definition user_in :: "pk list \<Rightarrow> share_owner \<Rightarrow> bool" where
  "user_in users owner = (case owner_user owner of None \<Rightarrow> False | Some u \<Rightarrow> u \<in> set users)"

text \<open>The methods of \<^verbatim>\<open>ShareOwnerFilter\<close> (lines 596 to 660).\<close>

definition status_filter ::
  "roster_queries \<Rightarrow> share_owner list \<Rightarrow> string \<Rightarrow> string \<Rightarrow> exn + share_owner list" where
  "status_filter ops queryset name v = Inr (remdups (q_with_status ops queryset v))"

definition shift_attendance_mode_filter ::
  "roster_queries \<Rightarrow> share_owner list \<Rightarrow> string \<Rightarrow> string \<Rightarrow> exn + share_owner list" where
  "shift_attendance_mode_filter ops queryset name v =
     Inr (remdups (filter (user_in (q_with_shift_attendance_mode ops v)) queryset))"

definition registered_to_slot_with_capability_filter ::
  "roster_queries \<Rightarrow> share_owner list \<Rightarrow> string \<Rightarrow> string \<Rightarrow> exn + share_owner list" where
  "registered_to_slot_with_capability_filter ops queryset name v =
     Inr (remdups (filter (user_in (q_registered_to_shift_slot_with_capability ops v)) queryset))"

definition has_capability_filter ::
  "roster_queries \<Rightarrow> share_owner list \<Rightarrow> string \<Rightarrow> string \<Rightarrow> exn + share_owner list" where
  "has_capability_filter ops queryset name v =
     Inr (remdups (filter (user_in (q_has_capability ops v)) queryset))"

definition not_has_capability_filter ::
  "roster_queries \<Rightarrow> share_owner list \<Rightarrow> string \<Rightarrow> string \<Rightarrow> exn + share_owner list" where
  "not_has_capability_filter ops queryset name v =
     Inr (remdups (filter (\<lambda>owner. \<not> user_in (q_has_capability ops v) owner) queryset))"

definition has_tapir_account_filter ::
  "share_owner list \<Rightarrow> string \<Rightarrow> bool \<Rightarrow> exn + share_owner list" where
  "has_tapir_account_filter queryset name v =
     Inr (remdups (filter (\<lambda>owner. (owner_user owner = None) \<noteq> v) queryset))"

definition abcd_week_filter ::
  "roster_queries \<Rightarrow> share_owner list \<Rightarrow> string \<Rightarrow> string \<Rightarrow> exn + share_owner list" where
  "abcd_week_filter ops queryset name v =
     Inr (remdups (filter (user_in (q_abcd_week ops v)) queryset))"

definition has_unpaid_shares_filter ::
  "roster_queries \<Rightarrow> share_owner list \<Rightarrow> string \<Rightarrow> bool \<Rightarrow> exn + share_owner list" where
  "has_unpaid_shares_filter ops queryset name v =
     (let unpaid_shares =
            filter (\<lambda>s. amount_paid s < q_COOP_SHARE_PRICE ops \<and>
                         so_owner s \<in> owner_id ` set queryset)
                   (q_share_ownerships ops);
          has_unpaid = (\<lambda>owner. \<exists>s \<in> set unpaid_shares. so_owner s = owner_id owner)
      in if v then Inr (remdups (filter has_unpaid queryset))
         else Inr (remdups (filter (\<lambda>owner. \<not> has_unpaid owner) queryset)))"

definition is_fully_paid_filter ::
  "roster_queries \<Rightarrow> share_owner list \<Rightarrow> string \<Rightarrow> bool \<Rightarrow> exn + share_owner list" where
  "is_fully_paid_filter ops queryset name v = Inr (q_with_fully_paid ops queryset v)"

text \<open>
  How the filter library calls a filter. A filter declared with \<^verbatim>\<open>method=...\<close>
  is called through \<^verbatim>\<open>FilterMethod.__call__\<close>, which starts with
  \<^verbatim>\<open>if value in EMPTY_VALUES: return qs\<close> and only then calls the method with the
  queryset, the field name and the value; \<^verbatim>\<open>EMPTY_VALUES\<close> holds \<^verbatim>\<open>None\<close> and the
  empty string (and the empty list, tuple and dictionary, which no field of these filter
  sets yields). The value of a \<^verbatim>\<open>CharFilter\<close> or \<^verbatim>\<open>ChoiceFilter\<close> is a string, that of
  a \<^verbatim>\<open>BooleanFilter\<close> a truth value; \<open>None\<close> is \<^verbatim>\<open>None\<close>. A filter generated for a
  model field of \<^verbatim>\<open>Meta.fields\<close> goes through \<^verbatim>\<open>Filter.filter\<close>, which starts with the
  same test and then keeps the rows whose field has the value.
\<close>

definition FilterMethod ::
  "(share_owner list \<Rightarrow> string \<Rightarrow> string \<Rightarrow> exn + share_owner list) \<Rightarrow> string \<Rightarrow>
   share_owner list \<Rightarrow> string option \<Rightarrow> exn + share_owner list" where
  "FilterMethod method field_name qs v =
     (if v = None \<or> v = Some [] then Inr qs else method qs field_name (the v))"

definition FilterMethod_bool ::
  "(share_owner list \<Rightarrow> string \<Rightarrow> bool \<Rightarrow> exn + share_owner list) \<Rightarrow> string \<Rightarrow>
   share_owner list \<Rightarrow> bool option \<Rightarrow> exn + share_owner list" where
  "FilterMethod_bool method field_name qs v =
     (if v = None then Inr qs else method qs field_name (the v))"

definition Filter_filter ::
  "(share_owner \<Rightarrow> bool) \<Rightarrow> share_owner list \<Rightarrow> bool option \<Rightarrow> exn + share_owner list" where
  "Filter_filter field qs v =
     (if v = None then Inr qs else Inr (filter (\<lambda>owner. field owner = the v) qs))"

text \<open>
  The filters of \<^verbatim>\<open>ShareOwnerFilter\<close> (lines 522 to 585) and of
  \<^verbatim>\<open>ShareOwnerFilterWelcomeDesk\<close> (lines 822 to 825), by the type of their value.
\<close>

definition ShareOwnerFilter_filters ::
  "roster_queries \<Rightarrow> (string \<times> (share_owner list \<Rightarrow> string option \<Rightarrow> exn + share_owner list)) list" where
  "ShareOwnerFilter_filters ops =
     [(''status'', FilterMethod (status_filter ops) ''status''),
      (''shift_attendance_mode'',
         FilterMethod (shift_attendance_mode_filter ops) ''shift_attendance_mode''),
      (''registered_to_slot_with_capability'',
         FilterMethod (registered_to_slot_with_capability_filter ops)
           ''registered_to_slot_with_capability''),
      (''has_capability'', FilterMethod (has_capability_filter ops) ''has_capability''),
      (''not_has_capability'', FilterMethod (not_has_capability_filter ops) ''not_has_capability''),
      (''abcd_week'', FilterMethod (abcd_week_filter ops) ''abcd_week''),
      (''display_name'',
         FilterMethod (ShareOwnerFilter_display_name_filter (q_with_name ops)) ''display_name'')]"

definition ShareOwnerFilter_boolean_filters ::
  "roster_queries \<Rightarrow> (string \<times> (share_owner list \<Rightarrow> bool option \<Rightarrow> exn + share_owner list)) list" where
  "ShareOwnerFilter_boolean_filters ops =
     [(''attended_welcome_session'', Filter_filter (q_attended_welcome_session ops)),
      (''ratenzahlung'', Filter_filter (q_ratenzahlung ops)),
      (''is_company'', Filter_filter is_company),
      (''paid_membership_fee'', Filter_filter (q_paid_membership_fee ops)),
      (''has_tapir_account'', FilterMethod_bool has_tapir_account_filter ''has_tapir_account''),
      (''has_unpaid_shares'', FilterMethod_bool (has_unpaid_shares_filter ops) ''has_unpaid_shares''),
      (''is_fully_paid'', FilterMethod_bool (is_fully_paid_filter ops) ''is_fully_paid'')]"

definition ShareOwnerFilterWelcomeDesk_filters ::
  "roster_queries \<Rightarrow> (string \<times> (share_owner list \<Rightarrow> string option \<Rightarrow> exn + share_owner list)) list" where
  "ShareOwnerFilterWelcomeDesk_filters ops =
     [(''display_name'',
         FilterMethod (ShareOwnerFilterWelcomeDesk_display_name_filter (q_with_name ops))
           ''display_name'')]"

section \<open>Sample data\<close>

definition sample_share :: share_ownership where
  "sample_share = \<lparr>so_id = 7, so_owner = 3, amount_paid = 100, start_date = 10, end_date = None\<rparr>"

definition sample_tables :: "(pk \<times> pk \<times> int \<times> date \<times> date option) tables" where
  "sample_tables =
     \<lparr>share_owners = [], share_ownerships = [sample_share], tapir_users = [],
      log_entries = [], recaps = []\<rparr>"

definition sample_world :: "(pk \<times> pk \<times> int \<times> date \<times> date option) world" where
  "sample_world = \<lparr>tables = sample_tables, outbox = [], fault_after = None, mail_ok = True\<rparr>"

definition admin_post :: request where
  "admin_post =
     \<lparr>req_method = POST, req_csrf_ok = True, req_user = 1, req_authenticated = True,
      req_perms = [''coop.manage'', ''coop.admin''], req_GET = Map.empty, req_today = 100\<rparr>"

definition sample_owner :: share_owner where
  "sample_owner =
     \<lparr>first_name = ''Ada'', last_name = ''Smith'', email = ''ada@example.org'',
      phone_number = ''030'', street = ''Hauptstr. 1'', postcode = ''10115'', city = ''Berlin'',
      country = ''DE'', preferred_language = ''de'',
      owner_id = 3, owner_user = None, is_company = False, is_investing = False,
      company_name = []\<rparr>"

definition sample_world2 :: "(pk \<times> pk \<times> int \<times> date \<times> date option) world" where
  "sample_world2 = sample_world\<lparr>tables := sample_tables\<lparr>share_owners := [sample_owner]\<rparr>\<rparr>"

definition manager_get :: "(string \<rightharpoonup> string) \<Rightarrow> request" where
  "manager_get q =
     \<lparr>req_method = GET, req_csrf_ok = False, req_user = 1, req_authenticated = True,
      req_perms = [''coop.manage''], req_GET = q, req_today = 100\<rparr>"

text \<open>A date parser for the sample data: it knows one date.\<close>

definition sample_strptime :: "string \<Rightarrow> string \<Rightarrow> date option" where
  "sample_strptime v fmt = (if v = ''01.02.2024'' \<and> fmt = ''%d.%m.%Y'' then Some 738917 else None)"

definition sample_form :: account_form where
  "sample_form = \<lparr>form_first_name = ''Ada'', form_last_name = ''Smith'', form_username = ''ada.smith''\<rparr>"

definition manager_post :: request where
  "manager_post = admin_post\<lparr>req_perms := [''coop.manage'']\<rparr>"

definition company_owner :: share_owner where
  "company_owner = sample_owner\<lparr>owner_id := 4, is_company := True, company_name := ''Acme''\<rparr>"

definition sample_world3 :: "(pk \<times> pk \<times> int \<times> date \<times> date option) world" where
  "sample_world3 =
     sample_world\<lparr>tables := sample_tables\<lparr>share_owners := [sample_owner, company_owner]\<rparr>\<rparr>"

text \<open>A share owner whose last name holds a line feed.\<close>

definition line_feed_owner :: share_owner where
  "line_feed_owner = sample_owner\<lparr>owner_id := 5, last_name := ''Smith'' @ [CHR 0x0A] @ ''Jones''\<rparr>"

definition sample_world4 :: "(pk \<times> pk \<times> int \<times> date \<times> date option) world" where
  "sample_world4 =
     sample_world\<lparr>tables := sample_tables\<lparr>share_owners := [sample_owner, line_feed_owner]\<rparr>\<rparr>"

definition sample_queries :: roster_queries where
  "sample_queries =
     \<lparr>q_with_name = with_name_spec last_name,
      q_with_status = (\<lambda>qs v. qs),
      q_with_fully_paid = (\<lambda>qs v. qs),
      q_with_shift_attendance_mode = (\<lambda>v. []),
      q_registered_to_shift_slot_with_capability = (\<lambda>v. []),
      q_has_capability = (\<lambda>v. []),
      q_abcd_week = (\<lambda>v. []),
      q_COOP_SHARE_PRICE = 100,
      q_share_ownerships = [sample_share],
      q_attended_welcome_session = (\<lambda>owner. False),
      q_ratenzahlung = (\<lambda>owner. False),
      q_paid_membership_fee = (\<lambda>owner. False)\<rparr>"

section \<open>Basic facts about actions\<close>

lemma seq_ret [simp]: "seq (ret x) k w = k x w"
  by (simp add: seq_def ret_def)

lemma seq_raise [simp]: "seq (raise e) k w = (Inl e, w)"
  by (simp add: seq_def raise_def)

lemma find_key: "find (\<lambda>r. key r = k) xs = Some s \<Longrightarrow> key s = k"
  by (auto simp: find_Some_iff)

section \<open>Deleting a share ownership is audited and atomic\<close>

lemma atomic_log_delete:
  assumes "atomic (seq (save_log_entry e) (\<lambda>_. delete_share_ownership s)) w = (res, w')"
  shows "outbox w' = outbox w \<and>
     (if fault_after w = Some 0 \<or> fault_after w = Some 1
      then res = Inl DatabaseError \<and> tables w' = tables w
      else res = Inr () \<and> tables w' = (tables w)\<lparr>log_entries := log_entries (tables w) @ [e],
              share_ownerships := filter (\<lambda>r. so_id r \<noteq> so_id s) (share_ownerships (tables w))\<rparr>)"
  using assms
  by (auto simp: atomic_def seq_def save_log_entry_def delete_share_ownership_def db_write_def
        split: option.splits nat.splits)

lemma share_ownership_delete_outcomes:
  "case share_ownership_delete request k w of (res, w') \<Rightarrow>
     outbox w' = outbox w \<and>
     (if req_method request = POST \<and> req_csrf_ok request \<and> has_perm request ''coop.admin''
      then (case find (\<lambda>r. so_id r = k) (share_ownerships (tables w)) of
              None \<Rightarrow> res = Inl Http404 \<and> tables w' = tables w
            | Some s \<Rightarrow>
                if fault_after w = Some 0 \<or> fault_after w = Some 1
                then res = Inl DatabaseError \<and> tables w' = tables w
                else res = Inr (HttpResponseRedirect (ShareOwnerUrl (so_owner s))) \<and>
                     tables w' = (tables w)
                       \<lparr>log_entries := log_entries (tables w) @ [delete_log_entry request s],
                        share_ownerships := filter (\<lambda>r. so_id r \<noteq> k) (share_ownerships (tables w))\<rparr>)
      else tables w' = tables w \<and>
           res \<in> {Inr HttpResponseNotAllowed, Inr (HttpResponseForbidden ''CSRF verification failed.''),
                  Inr (HttpResponseRedirect LoginUrl)})"
proof (cases "req_method request = POST \<and> req_csrf_ok request \<and> has_perm request ''coop.admin''")
  case False
  then show ?thesis
    by (auto simp: share_ownership_delete_def require_POST_def csrf_protect_def
          permission_required_def ret_def safe_method_def)
next
  case True
  then have eq: "share_ownership_delete request k w = share_ownership_delete_view request k w"
    by (simp add: share_ownership_delete_def require_POST_def csrf_protect_def permission_required_def)
  show ?thesis
  proof (cases "find (\<lambda>r. so_id r = k) (share_ownerships (tables w))")
    case None
    with True show ?thesis
      by (simp add: eq share_ownership_delete_view_def get_object_or_404_def seq_def raise_def)
  next
    case (Some s)
    obtain r w1 where a: "atomic (seq (save_log_entry (delete_log_entry request s))
        (\<lambda>_. delete_share_ownership s)) w = (r, w1)"
      by (cases "atomic (seq (save_log_entry (delete_log_entry request s))
        (\<lambda>_. delete_share_ownership s)) w") auto
    have k: "so_id s = k" using Some by (rule find_key)
    have v: "share_ownership_delete_view request k w =
        (case r of Inl e \<Rightarrow> (Inl e, w1)
         | Inr _ \<Rightarrow> (Inr (HttpResponseRedirect (ShareOwnerUrl (so_owner s))), w1))"
      using Some a
      by (simp add: share_ownership_delete_view_def get_object_or_404_def seq_def ret_def Let_def
            split: sum.splits)
    from atomic_log_delete [OF a] True Some k show ?thesis
      by (auto simp: eq v split: if_splits)
  qed
qed

text \<open>
  Claim C1. A delete request passes only as a POST with a valid CSRF token from a user
  holding \<^verbatim>\<open>coop.admin\<close>, whereas the edit view lets every user holding
  \<^verbatim>\<open>coop.manage\<close> through: a user who holds \<^verbatim>\<open>coop.manage\<close> and not
  \<^verbatim>\<open>coop.admin\<close> may edit and is sent to the login page on a delete. A delete request
  that does not pass leaves the tables as they are. For a request that passes and names an
  existing share ownership there are two outcomes only: the store refused one of the two
  writes, the exception leaves the view and the tables are those before the request (no
  log entry, no deletion); or the tables are those before the request with exactly one log
  entry appended and with the share ownership removed. That entry is filed by the user of
  the request under the owner of the share ownership and holds the record of the share
  ownership, every field of it, as it was found before the deletion. The outbox never
  changes.
\<close>

theorem share_ownership_delete_audited_atomically:
  "(has_perm request ''coop.manage'' \<longrightarrow>
      ShareOwnershipUpdateView_dispatch handler request k w = handler request k w) \<and>
   (req_method request = POST \<and> req_csrf_ok request \<and> \<not> has_perm request ''coop.admin'' \<longrightarrow>
      share_ownership_delete request k w = (Inr (HttpResponseRedirect LoginUrl), w)) \<and>
   (case share_ownership_delete request k w of (res, w') \<Rightarrow>
     outbox w' = outbox w \<and>
     (if req_method request = POST \<and> req_csrf_ok request \<and> has_perm request ''coop.admin''
      then (case find (\<lambda>r. so_id r = k) (share_ownerships (tables w)) of
              None \<Rightarrow> res = Inl Http404 \<and> tables w' = tables w
            | Some s \<Rightarrow>
                if fault_after w = Some 0 \<or> fault_after w = Some 1
                then res = Inl DatabaseError \<and> tables w' = tables w
                else res = Inr (HttpResponseRedirect (ShareOwnerUrl (so_owner s))) \<and>
                     s \<in> set (share_ownerships (tables w)) \<and> so_id s = k \<and>
                     tables w' = (tables w)
                       \<lparr>log_entries := log_entries (tables w) @
                          [\<lparr>le_actor = req_user request, le_user = None,
                            le_share_owner = Some (so_owner s),
                            le_payload = DeleteShareOwnershipLogEntry
                              \<lparr>so_id = k, so_owner = so_owner s, amount_paid = amount_paid s,
                               start_date = start_date s, end_date = end_date s\<rparr>\<rparr>],
                        share_ownerships := filter (\<lambda>r. so_id r \<noteq> k) (share_ownerships (tables w))\<rparr>)
      else tables w' = tables w \<and>
           res \<in> {Inr HttpResponseNotAllowed, Inr (HttpResponseForbidden ''CSRF verification failed.''),
                  Inr (HttpResponseRedirect LoginUrl)}))"
proof -
  have edit: "has_perm request ''coop.manage'' \<longrightarrow>
      ShareOwnershipUpdateView_dispatch handler request k w = handler request k w"
    by (simp add: ShareOwnershipUpdateView_dispatch_def PermissionRequiredMixin_dispatch_def)
  have refused: "req_method request = POST \<and> req_csrf_ok request \<and>
      \<not> has_perm request ''coop.admin'' \<longrightarrow>
      share_ownership_delete request k w = (Inr (HttpResponseRedirect LoginUrl), w)"
    by (simp add: share_ownership_delete_def require_POST_def csrf_protect_def
          permission_required_def ret_def)
  have record_eq: "\<lparr>so_id = so_id s, so_owner = so_owner s, amount_paid = amount_paid s,
      start_date = start_date s, end_date = end_date s\<rparr> = s" for s :: share_ownership
    by simp
  have found: "find (\<lambda>r. so_id r = k) (share_ownerships (tables w)) = Some s \<Longrightarrow>
      s \<in> set (share_ownerships (tables w)) \<and> so_id s = k" for s
    by (auto simp: find_Some_iff)
  have outcomes: "case share_ownership_delete request k w of (res, w') \<Rightarrow>
     outbox w' = outbox w \<and>
     (if req_method request = POST \<and> req_csrf_ok request \<and> has_perm request ''coop.admin''
      then (case find (\<lambda>r. so_id r = k) (share_ownerships (tables w)) of
              None \<Rightarrow> res = Inl Http404 \<and> tables w' = tables w
            | Some s \<Rightarrow>
                if fault_after w = Some 0 \<or> fault_after w = Some 1
                then res = Inl DatabaseError \<and> tables w' = tables w
                else res = Inr (HttpResponseRedirect (ShareOwnerUrl (so_owner s))) \<and>
                     s \<in> set (share_ownerships (tables w)) \<and> so_id s = k \<and>
                     tables w' = (tables w)
                       \<lparr>log_entries := log_entries (tables w) @
                          [\<lparr>le_actor = req_user request, le_user = None,
                            le_share_owner = Some (so_owner s),
                            le_payload = DeleteShareOwnershipLogEntry
                              \<lparr>so_id = k, so_owner = so_owner s, amount_paid = amount_paid s,
                               start_date = start_date s, end_date = end_date s\<rparr>\<rparr>],
                        share_ownerships := filter (\<lambda>r. so_id r \<noteq> k) (share_ownerships (tables w))\<rparr>)
      else tables w' = tables w \<and>
           res \<in> {Inr HttpResponseNotAllowed, Inr (HttpResponseForbidden ''CSRF verification failed.''),
                  Inr (HttpResponseRedirect LoginUrl)})"
  proof (cases "find (\<lambda>r. so_id r = k) (share_ownerships (tables w))")
    case None
    obtain res w' where d: "share_ownership_delete request k w = (res, w')"
      by (cases "share_ownership_delete request k w") auto
    from share_ownership_delete_outcomes [where request = request and k = k and w = w]
    show ?thesis by (auto simp: d None split: if_splits)
  next
    case (Some s)
    from found [OF Some] have k: "so_id s = k" and m: "s \<in> set (share_ownerships (tables w))"
      by simp_all
    from record_eq [of s] k
    have r: "\<lparr>so_id = k, so_owner = so_owner s, amount_paid = amount_paid s,
      start_date = start_date s, end_date = end_date s\<rparr> = s"
      by simp
    obtain res w' where d: "share_ownership_delete request k w = (res, w')"
      by (cases "share_ownership_delete request k w") auto
    from share_ownership_delete_outcomes [where request = request and k = k and w = w] k m
    show ?thesis
      by (auto simp: d Some delete_log_entry_def r split: if_splits)
  qed
  from edit refused outcomes show ?thesis by blast
qed

theorem share_ownership_delete_audited_atomically_witness:
  "req_method admin_post = POST \<and> req_csrf_ok admin_post \<and> has_perm admin_post ''coop.admin'' \<and>
   find (\<lambda>r. so_id r = 7) (share_ownerships (tables sample_world)) = Some sample_share \<and>
   fault_after sample_world = None \<and>
   fst (share_ownership_delete admin_post 7 sample_world) = Inr (HttpResponseRedirect (ShareOwnerUrl 3)) \<and>
   tables (snd (share_ownership_delete admin_post 7 sample_world)) =
     \<lparr>share_owners = [], share_ownerships = [], tapir_users = [],
      log_entries =
        [\<lparr>le_actor = 1, le_user = None, le_share_owner = Some 3,
          le_payload = DeleteShareOwnershipLogEntry
            \<lparr>so_id = 7, so_owner = 3, amount_paid = 100, start_date = 10, end_date = None\<rparr>\<rparr>],
      recaps = []\<rparr> \<and>
   has_perm manager_post ''coop.manage'' \<and> \<not> has_perm manager_post ''coop.admin'' \<and>
   share_ownership_delete manager_post 7 sample_world
     = (Inr (HttpResponseRedirect LoginUrl), sample_world) \<and>
   ShareOwnershipUpdateView_dispatch (\<lambda>request k. ret HttpResponseForm) manager_post 7 sample_world
     = (Inr HttpResponseForm, sample_world)"
proof -
  have admin: "req_method admin_post = POST \<and> req_csrf_ok admin_post \<and>
      has_perm admin_post ''coop.admin'' \<and>
      find (\<lambda>r. so_id r = 7) (share_ownerships (tables sample_world)) = Some sample_share \<and>
      fault_after sample_world = None \<and>
      fst (share_ownership_delete admin_post 7 sample_world)
        = Inr (HttpResponseRedirect (ShareOwnerUrl 3)) \<and>
      tables (snd (share_ownership_delete admin_post 7 sample_world)) =
        \<lparr>share_owners = [], share_ownerships = [], tapir_users = [],
         log_entries =
           [\<lparr>le_actor = 1, le_user = None, le_share_owner = Some 3,
             le_payload = DeleteShareOwnershipLogEntry
               \<lparr>so_id = 7, so_owner = 3, amount_paid = 100, start_date = 10, end_date = None\<rparr>\<rparr>],
         recaps = []\<rparr>"
    using share_ownership_delete_audited_atomically
      [where request = admin_post and k = 7 and w = sample_world
         and handler = "\<lambda>request k. ret HttpResponseForm"]
    by (auto simp: admin_post_def sample_world_def sample_tables_def sample_share_def has_perm_def
          split: prod.splits)
  have perms: "has_perm manager_post ''coop.manage''" "\<not> has_perm manager_post ''coop.admin''"
    by (simp_all add: manager_post_def admin_post_def has_perm_def)
  have post: "req_method manager_post = POST" "req_csrf_ok manager_post"
    by (simp_all add: manager_post_def admin_post_def)
  have manager: "share_ownership_delete manager_post 7 sample_world
        = (Inr (HttpResponseRedirect LoginUrl), sample_world) \<and>
      ShareOwnershipUpdateView_dispatch (\<lambda>request k. ret HttpResponseForm) manager_post 7 sample_world
        = (Inr HttpResponseForm, sample_world)"
    using share_ownership_delete_audited_atomically
      [where request = manager_post and k = 7 and w = sample_world
         and handler = "\<lambda>request k. ret HttpResponseForm"] perms post
    by (simp add: ret_def)
  from admin perms manager show ?thesis by blast
qed

section \<open>Editing a share ownership is logged exactly when the snapshot changes\<close>

lemma inj_sample_freeze: "inj sample_freeze"
  by (rule injI) (simp add: sample_freeze_def)

text \<open>
  Claim C2. \<^verbatim>\<open>form_valid\<close> of the edit view, entered with the frozen snapshot of the
  object as loaded: when it returns a response, the log has grown by one entry if the frozen
  snapshot before differs from the frozen snapshot after, and has not grown if they are
  equal. So an edit that leaves every field as it was writes no entry, and, for a snapshot
  function that tells any two share ownerships apart, an edit that changes a field writes
  exactly one. When the store refuses a write the exception leaves the view and the tables
  are those before the edit.
\<close>

theorem ShareOwnershipUpdateView_logs_iff_changed:
  "case ShareOwnershipUpdateView_form_valid freeze_for_log request (freeze_for_log object) form_instance w of
     (Inl e, w') \<Rightarrow> tables w' = tables w
   | (Inr response, w') \<Rightarrow>
       log_entries (tables w') = log_entries (tables w) @
         (if freeze_for_log object \<noteq> freeze_for_log form_instance
          then [update_log_entry request form_instance (freeze_for_log object) (freeze_for_log form_instance)]
          else []) \<and>
       (form_instance = object \<longrightarrow> log_entries (tables w') = log_entries (tables w)) \<and>
       (inj freeze_for_log \<longrightarrow> form_instance \<noteq> object \<longrightarrow>
          log_entries (tables w') = log_entries (tables w) @
            [update_log_entry request form_instance (freeze_for_log object) (freeze_for_log form_instance)])"
  by (auto simp: ShareOwnershipUpdateView_form_valid_def super_form_valid_def atomic_def seq_def
        ret_def save_share_ownership_def save_log_entry_def db_write_def Let_def inj_def
        split: option.splits nat.splits prod.splits sum.splits)

theorem ShareOwnershipUpdateView_logs_iff_changed_witness:
  "inj sample_freeze \<and> sample_share\<lparr>amount_paid := 50\<rparr> \<noteq> sample_share \<and>
   fst (ShareOwnershipUpdateView_form_valid sample_freeze admin_post (sample_freeze sample_share)
          (sample_share\<lparr>amount_paid := 50\<rparr>) sample_world)
     = Inr (HttpResponseRedirect (ShareOwnerUrl 3)) \<and>
   log_entries (tables (snd (ShareOwnershipUpdateView_form_valid sample_freeze admin_post
          (sample_freeze sample_share) (sample_share\<lparr>amount_paid := 50\<rparr>) sample_world)))
     = [update_log_entry admin_post (sample_share\<lparr>amount_paid := 50\<rparr>)
          (7, 3, 100, 10, None) (7, 3, 50, 10, None)] \<and>
   log_entries (tables (snd (ShareOwnershipUpdateView_form_valid sample_freeze admin_post
          (sample_freeze sample_share) sample_share sample_world))) = []"
proof -
  have changed: "sample_share\<lparr>amount_paid := 50\<rparr> \<noteq> sample_share"
    by (simp add: sample_share_def)
  have ok: "fst (ShareOwnershipUpdateView_form_valid sample_freeze admin_post
      (sample_freeze sample_share) i sample_world) = Inr (HttpResponseRedirect (ShareOwnerUrl (so_owner i)))"
    for i
    by (simp add: ShareOwnershipUpdateView_form_valid_def super_form_valid_def atomic_def seq_def
        ret_def save_share_ownership_def save_log_entry_def db_write_def Let_def sample_world_def
        split: prod.splits sum.splits)
  have fr: "sample_freeze sample_share = (7, 3, 100, 10, None)"
    "sample_freeze (sample_share\<lparr>amount_paid := 50\<rparr>) = (7, 3, 50, 10, None)"
    by (simp_all add: sample_freeze_def sample_share_def)
  have logs: "log_entries (tables sample_world) = []"
    by (simp add: sample_world_def sample_tables_def)
  from ShareOwnershipUpdateView_logs_iff_changed
    [where freeze_for_log = sample_freeze and request = admin_post and object = sample_share
       and form_instance = "sample_share\<lparr>amount_paid := 50\<rparr>" and w = sample_world]
    ok [of "sample_share\<lparr>amount_paid := 50\<rparr>"] inj_sample_freeze changed
  have one: "log_entries (tables (snd (ShareOwnershipUpdateView_form_valid sample_freeze admin_post
          (sample_freeze sample_share) (sample_share\<lparr>amount_paid := 50\<rparr>) sample_world)))
     = [update_log_entry admin_post (sample_share\<lparr>amount_paid := 50\<rparr>)
          (7, 3, 100, 10, None) (7, 3, 50, 10, None)]"
    by (auto simp: fr logs split: prod.splits sum.splits)
  from ShareOwnershipUpdateView_logs_iff_changed
    [where freeze_for_log = sample_freeze and request = admin_post and object = sample_share
       and form_instance = sample_share and w = sample_world]
    ok [of sample_share]
  have none: "log_entries (tables (snd (ShareOwnershipUpdateView_form_valid sample_freeze admin_post
          (sample_freeze sample_share) sample_share sample_world))) = []"
    by (auto simp: logs split: prod.splits sum.splits)
  from ok [of "sample_share\<lparr>amount_paid := 50\<rparr>"]
  have r: "fst (ShareOwnershipUpdateView_form_valid sample_freeze admin_post (sample_freeze sample_share)
          (sample_share\<lparr>amount_paid := 50\<rparr>) sample_world)
     = Inr (HttpResponseRedirect (ShareOwnerUrl 3))"
    by (simp add: sample_share_def)
  from inj_sample_freeze changed r one none show ?thesis by blast
qed

section \<open>Confirmation documents\<close>

text \<open>
  Claim C3, as stated, fails for a share owner whose display name holds a line feed: a
  permitted GET that lacks both parameters ends in \<^verbatim>\<open>BadHeaderError\<close>, raised when
  the \<^verbatim>\<open>Content-Disposition\<close> header is set, and not in a validation error.
\<close>

theorem extra_shares_confirmation_line_feed_counterexample:
  "req_GET (manager_get Map.empty) ''num_shares'' = None \<and>
   req_GET (manager_get Map.empty) ''date'' = None \<and>
   req_method (manager_get Map.empty) = GET \<and>
   has_perm (manager_get Map.empty) ''coop.manage'' \<and>
   find (\<lambda>r. owner_id r = 5) (share_owners (tables sample_world4)) = Some line_feed_owner \<and>
   shareowner_extra_shares_confirmation last_name sample_strptime (manager_get Map.empty) 5
     sample_world4 = (Inl BadHeaderError, sample_world4) \<and>
   \<not> (\<exists>msg. fst (shareowner_extra_shares_confirmation last_name sample_strptime
                     (manager_get Map.empty) 5 sample_world4) = Inl (ValidationError msg))"
  by (simp add: shareowner_extra_shares_confirmation_def require_GET_def permission_required_def
        shareowner_extra_shares_confirmation_view_def get_object_or_404_def seq_def ret_def
        raise_def set_header_def content_disposition_def Let_def manager_get_def has_perm_def
        sample_world4_def sample_world_def sample_tables_def sample_owner_def line_feed_owner_def)

text \<open>
  Claim C3, amended. A request for the extra-shares confirmation document that lacks the
  parameter \<^verbatim>\<open>num_shares\<close> or the parameter \<^verbatim>\<open>date\<close> never yields a document
  and changes nothing, and no default value is put in the place of the missing parameter.
  When it reaches the view (a GET from a user holding \<^verbatim>\<open>coop.manage\<close>, for an existing
  share owner) it ends in an exception: \<^verbatim>\<open>BadHeaderError\<close> when the display name of
  the owner holds a carriage return or a line feed, since the header of the response is set
  before the parameters are checked, and otherwise a \<^verbatim>\<open>ValidationError\<close> that names
  the missing parameter.
\<close>

theorem extra_shares_confirmation_missing_parameters:
  assumes "req_GET request ''num_shares'' = None \<or> req_GET request ''date'' = None"
  shows "case shareowner_extra_shares_confirmation get_display_name strptime request k w of
     (res, w') \<Rightarrow> w' = w \<and> (\<forall>filename doc. res \<noteq> Inr (HttpResponsePdf filename doc)) \<and>
       (\<forall>share_owner. req_method request = GET \<and> has_perm request ''coop.manage'' \<and>
        find (\<lambda>r. owner_id r = k) (share_owners (tables w)) = Some share_owner \<longrightarrow>
          res = Inl (if CHR 0x0A \<in> set (get_display_name share_owner) \<or>
                        CHR 0x0D \<in> set (get_display_name share_owner)
                     then BadHeaderError
                     else ValidationError (if req_GET request ''num_shares'' = None
                       then ''Missing parameter : num_shares'' else ''Missing parameter : date'')))"
  using assms
  by (auto simp: shareowner_extra_shares_confirmation_def require_GET_def permission_required_def
        shareowner_extra_shares_confirmation_view_def get_object_or_404_def seq_def ret_def raise_def
        set_header_def content_disposition_def Let_def split: option.splits)

theorem extra_shares_confirmation_missing_parameters_witness:
  "req_GET (manager_get [''num_shares'' \<mapsto> ''2'']) ''date'' = None \<and>
   req_method (manager_get [''num_shares'' \<mapsto> ''2'']) = GET \<and>
   has_perm (manager_get [''num_shares'' \<mapsto> ''2'']) ''coop.manage'' \<and>
   find (\<lambda>r. owner_id r = 3) (share_owners (tables sample_world2)) = Some sample_owner \<and>
   shareowner_extra_shares_confirmation last_name sample_strptime
     (manager_get [''num_shares'' \<mapsto> ''2'']) 3 sample_world2
     = (Inl (ValidationError ''Missing parameter : date''), sample_world2)"
proof -
  have h: "req_GET (manager_get [''num_shares'' \<mapsto> ''2'']) ''num_shares'' = None \<or>
           req_GET (manager_get [''num_shares'' \<mapsto> ''2'']) ''date'' = None"
    by (simp add: manager_get_def)
  have pre: "req_method (manager_get [''num_shares'' \<mapsto> ''2'']) = GET"
    "has_perm (manager_get [''num_shares'' \<mapsto> ''2'']) ''coop.manage''"
    "find (\<lambda>r. owner_id r = 3) (share_owners (tables sample_world2)) = Some sample_owner"
    "req_GET (manager_get [''num_shares'' \<mapsto> ''2'']) ''num_shares'' \<noteq> None"
    "req_GET (manager_get [''num_shares'' \<mapsto> ''2'']) ''date'' = None"
    by (simp_all add: manager_get_def has_perm_def sample_world2_def sample_world_def
          sample_tables_def sample_owner_def)
  have name: "CHR 0x0A \<notin> set (last_name sample_owner)" "CHR 0x0D \<notin> set (last_name sample_owner)"
    by (simp_all add: sample_owner_def)
  from extra_shares_confirmation_missing_parameters
         [OF h, where get_display_name = last_name and strptime = sample_strptime and k = 3
            and w = sample_world2] pre name
  show ?thesis
    by (auto split: prod.splits)
qed



section \<open>Granting a user account\<close>

lemma find_mem: "find P xs = Some s \<Longrightarrow> s \<in> set xs"
  by (auto simp: find_Some_iff)

text \<open>
  Claim C5. A request to grant an account to a share owner that already has a linked
  account, or that is a company, is answered with a 403 response before the permission
  check and before any handler runs: whatever the rest of the dispatch would do, the world
  is left exactly as it was, so no account is created and the owner is not changed.
\<close>

theorem create_user_rejected_for_linked_or_company:
  assumes "find (\<lambda>r. owner_id r = k) (share_owners (tables w)) = Some owner"
    and "owner_user owner \<noteq> None \<or> is_company owner"
  shows "CreateUserFromShareOwnerView_dispatch super_dispatch request k w =
           (Inr (HttpResponseForbidden
                   (if owner_user owner \<noteq> None then ''This ShareOwner already has a User''
                    else ''This ShareOwner is a company'')), w) \<and>
         CreateUserFromShareOwnerView form request k w =
           (Inr (HttpResponseForbidden
                   (if owner_user owner \<noteq> None then ''This ShareOwner already has a User''
                    else ''This ShareOwner is a company'')), w)"
  using assms
  by (auto simp: CreateUserFromShareOwnerView_def CreateUserFromShareOwnerView_dispatch_def
        get_object_or_404_def seq_def ret_def)

theorem create_user_rejected_for_linked_or_company_witness:
  "find (\<lambda>r. owner_id r = 4) (share_owners (tables sample_world3)) = Some company_owner \<and>
   is_company company_owner \<and>
   CreateUserFromShareOwnerView (Some sample_form) manager_post 4 sample_world3
     = (Inr (HttpResponseForbidden ''This ShareOwner is a company''), sample_world3)"
proof -
  have f: "find (\<lambda>r. owner_id r = 4) (share_owners (tables sample_world3)) = Some company_owner"
    by (simp add: sample_world3_def sample_world_def sample_tables_def sample_owner_def
          company_owner_def)
  have c: "owner_user company_owner \<noteq> None \<or> is_company company_owner"
    by (simp add: company_owner_def)
  have u: "owner_user company_owner = None"
    by (simp add: company_owner_def sample_owner_def)
  from create_user_rejected_for_linked_or_company [OF f c, of _ manager_post "Some sample_form"] f c u
  show ?thesis by simp
qed

text \<open>
  Claim C9. A grant that goes through (the owner exists, the store accepts every write,
  the mail is accepted): the form is bound to an account that carries a copy of every
  identity field of the owner; the account is saved with these copies, the three form
  fields (first name, last name, user name) being those that were submitted; the owner is
  then linked to the new account and every identity field of the owner is blank. After
  the operation the identity fields are held by the linked account only.
\<close>

theorem create_user_copies_then_blanks:
  fixes w :: "'f world"
  assumes found: "find (\<lambda>r. owner_id r = k) (share_owners (tables w)) = Some owner"
    and store: "fault_after w = None" and mail: "mail_ok w"
  defines "new_pk \<equiv> fresh_pk (concat (map (\<lambda>r. case user_id r of None \<Rightarrow> [] | Some i \<Rightarrow> [i])
                                          (tapir_users (tables w))))"
  shows "CreateUserFromShareOwnerView_post (Some form) request k w =
    (Inr (HttpResponseRedirect (TapirUserUrl new_pk)),
     w\<lparr>tables := (tables w)
          \<lparr>tapir_users := tapir_users (tables w) @
             [\<lparr>first_name = form_first_name form, last_name = form_last_name form,
               email = email owner, phone_number = phone_number owner, street = street owner,
               postcode = postcode owner, city = city owner, country = country owner,
               preferred_language = preferred_language owner,
               user_id = Some new_pk, username = form_username form\<rparr>],
           share_owners := map (\<lambda>r. if owner_id r = k
              then \<lparr>first_name = [], last_name = [], email = [], phone_number = [], street = [],
                    postcode = [], city = [], country = [], preferred_language = [],
                    owner_id = k, owner_user = Some new_pk, is_company = is_company owner,
                    is_investing = is_investing owner, company_name = company_name owner\<rparr>
              else r) (share_owners (tables w)),
           log_entries := map (\<lambda>e. if le_share_owner e = Some k
                  then e\<lparr>le_user := Some new_pk, le_share_owner := None\<rparr> else e)
            (log_entries (tables w))\<rparr>,
        outbox := outbox w @ [TapirAccountCreatedEmail new_pk]\<rparr>)"
proof -
  have k: "owner_id owner = k" using found by (rule find_key)
  have mem: "\<exists>r \<in> set (share_owners (tables w)). owner_id r = k"
    using found k find_mem by fastforce
  have "blank_info_fields (owner\<lparr>owner_user := Some new_pk\<rparr>) =
     \<lparr>first_name = [], last_name = [], email = [], phone_number = [], street = [],
                    postcode = [], city = [], country = [], preferred_language = [],
                    owner_id = k, owner_user = Some new_pk, is_company = is_company owner,
                    is_investing = is_investing owner, company_name = company_name owner\<rparr>"
    using k by (cases owner) (simp add: blank_info_fields_def)
  moreover have "construct_instance form (CreateUserFromShareOwnerView_get_form_kwargs owner) =
      \<lparr>first_name = form_first_name form, last_name = form_last_name form,
               email = email owner, phone_number = phone_number owner, street = street owner,
               postcode = postcode owner, city = city owner, country = country owner,
               preferred_language = preferred_language owner,
               user_id = None, username = form_username form\<rparr>"
    by (simp add: construct_instance_def CreateUserFromShareOwnerView_get_form_kwargs_def
          copy_user_info_def TapirUser_new_def)
  ultimately show ?thesis
    using found store mail mem k
    by (simp add: CreateUserFromShareOwnerView_post_def CreateUserFromShareOwnerView_form_valid_def
        get_object_or_404_def atomic_def seq_def ret_def create_tapir_user_def db_write_def
        save_share_owner_def move_log_entries_def send_mail_def Let_def new_pk_def)
qed

theorem create_user_copies_then_blanks_witness:
  "find (\<lambda>r. owner_id r = 3) (share_owners (tables sample_world2)) = Some sample_owner \<and>
   fault_after sample_world2 = None \<and> mail_ok sample_world2 \<and>
   fst (CreateUserFromShareOwnerView_post (Some sample_form) manager_post 3 sample_world2)
     = Inr (HttpResponseRedirect (TapirUserUrl 1)) \<and>
   tapir_users (tables (snd (CreateUserFromShareOwnerView_post (Some sample_form) manager_post 3
       sample_world2)))
     = [\<lparr>first_name = ''Ada'', last_name = ''Smith'', email = ''ada@example.org'',
         phone_number = ''030'', street = ''Hauptstr. 1'', postcode = ''10115'', city = ''Berlin'',
         country = ''DE'', preferred_language = ''de'', user_id = Some 1,
         username = ''ada.smith''\<rparr>] \<and>
   share_owners (tables (snd (CreateUserFromShareOwnerView_post (Some sample_form) manager_post 3
       sample_world2)))
     = [\<lparr>first_name = [], last_name = [], email = [], phone_number = [], street = [],
         postcode = [], city = [], country = [], preferred_language = [],
         owner_id = 3, owner_user = Some 1, is_company = False, is_investing = False,
         company_name = []\<rparr>]"
proof -
  have f: "find (\<lambda>r. owner_id r = 3) (share_owners (tables sample_world2)) = Some sample_owner"
    by (simp add: sample_world2_def sample_world_def sample_tables_def sample_owner_def)
  have s: "fault_after sample_world2 = None" and m: "mail_ok sample_world2"
    by (simp_all add: sample_world2_def sample_world_def)
  have n: "fresh_pk (concat (map (\<lambda>r. case user_id r of None \<Rightarrow> [] | Some i \<Rightarrow> [i])
              (tapir_users (tables sample_world2)))) = 1"
    by (simp add: fresh_pk_def sample_world2_def sample_world_def sample_tables_def)
  have t: "share_owners (tables sample_world2) = [sample_owner]"
    "tapir_users (tables sample_world2) = []"
    by (simp_all add: sample_world2_def sample_world_def sample_tables_def)
  from create_user_copies_then_blanks [OF f s m, of sample_form manager_post] f s m
  show ?thesis
    by (simp add: n t fresh_pk_def sample_owner_def sample_form_def)
qed

section \<open>Notification mails and the transaction\<close>

lemma create_share_ownerships_ok:
  "fault_after w = None \<Longrightarrow>
   \<exists>rows. create_share_ownerships n owner sd ed w =
       (Inr (), w\<lparr>tables := (tables w)\<lparr>share_ownerships := share_ownerships (tables w) @ rows\<rparr>\<rparr>) \<and>
     length rows = n \<and>
     (\<forall>r \<in> set rows. so_owner r = owner \<and> amount_paid r = 0 \<and> start_date r = sd \<and> end_date r = ed)"
proof (induction n arbitrary: w)
  case 0
  then show ?case by (simp add: ret_def)
next
  case (Suc n)
  let ?row = "\<lparr>so_id = fresh_pk (map so_id (share_ownerships (tables w))), so_owner = owner,
          amount_paid = 0, start_date = sd, end_date = ed\<rparr>"
  let ?w1 = "w\<lparr>tables := (tables w)\<lparr>share_ownerships := share_ownerships (tables w) @ [?row]\<rparr>\<rparr>"
  have step: "create_share_ownership owner 0 sd ed w = (Inr (), ?w1)"
    using Suc.prems by (simp add: create_share_ownership_def db_write_def)
  have "fault_after ?w1 = None" using Suc.prems by simp
  from Suc.IH [OF this] obtain rows where
    r: "create_share_ownerships n owner sd ed ?w1 =
       (Inr (), ?w1\<lparr>tables := (tables ?w1)\<lparr>share_ownerships := share_ownerships (tables ?w1) @ rows\<rparr>\<rparr>)"
    and l: "length rows = n"
    and p: "\<forall>r \<in> set rows. so_owner r = owner \<and> amount_paid r = 0 \<and> start_date r = sd \<and> end_date r = ed"
    by blast
  have "create_share_ownerships (Suc n) owner sd ed w =
      (Inr (), w\<lparr>tables := (tables w)\<lparr>share_ownerships := share_ownerships (tables w) @ (?row # rows)\<rparr>\<rparr>)"
    using step r by (simp add: seq_def)
  moreover have "length (?row # rows) = Suc n" using l by simp
  moreover have "\<forall>r \<in> set (?row # rows). so_owner r = owner \<and> amount_paid r = 0 \<and> start_date r = sd \<and> end_date r = ed"
    using p by simp
  ultimately show ?case by blast
qed

text \<open>
  Adding shares: the mail is sent after the atomic block has been left, so a mail that is
  refused ends the request in an exception while the log entry, the new share ownerships
  and the accounting record stay committed.
\<close>

lemma create_multiple_mail_outside_transaction:
  assumes found: "find (\<lambda>r. owner_id r = k) (share_owners (tables w)) = Some owner"
    and store: "fault_after w = None" and mail: "\<not> mail_ok w"
  shows "\<exists>rows w'. ShareOwnershipCreateMultipleView_form_valid request k num_shares sd ed w =
            (Inl EmailError, w') \<and>
          tables w' = (tables w)
            \<lparr>log_entries := log_entries (tables w) @ [create_log_entry request owner num_shares sd ed],
             share_ownerships := share_ownerships (tables w) @ rows,
             recaps := recaps (tables w) @ [\<lparr>recap_member = owner_id owner,
                 recap_number_of_shares = num_shares, recap_date = req_today request\<rparr>]\<rparr> \<and>
          length rows = nat num_shares \<and> outbox w' = outbox w"
proof -
  let ?w1 = "w\<lparr>tables := (tables w)\<lparr>log_entries := log_entries (tables w) @
       [create_log_entry request owner num_shares sd ed]\<rparr>\<rparr>"
  have s1: "save_log_entry (create_log_entry request owner num_shares sd ed) w = (Inr (), ?w1)"
    using store by (simp add: save_log_entry_def db_write_def)
  have "fault_after ?w1 = None" using store by simp
  from create_share_ownerships_ok [OF this, of "nat num_shares" "owner_id owner" sd ed]
  obtain rows where
    r: "create_share_ownerships (nat num_shares) (owner_id owner) sd ed ?w1 =
       (Inr (), ?w1\<lparr>tables := (tables ?w1)\<lparr>share_ownerships := share_ownerships (tables ?w1) @ rows\<rparr>\<rparr>)"
    and l: "length rows = nat num_shares"
    by blast
  show ?thesis
    using found s1 r l store mail
    by (auto simp: ShareOwnershipCreateMultipleView_form_valid_def get_object_or_404_def seq_def
          ret_def atomic_def create_recap_def db_write_def send_mail_def
          intro!: exI [of _ rows])
qed

text \<open>
  Claim C4, at the grant of a user account: the mail is sent inside the atomic block. On
  the sample data, with a mail service that refuses the message, the request ends in the
  exception of the mail service and the tables are those before the request: the account
  that was saved is gone, while the same request with a working mail service leaves an
  account behind.
\<close>

theorem create_user_failed_mail_rolls_back:
  "CreateUserFromShareOwnerView (Some sample_form) manager_post 3 (sample_world2\<lparr>mail_ok := False\<rparr>)
     = (Inl EmailError, sample_world2\<lparr>mail_ok := False\<rparr>) \<and>
   tapir_users (tables (sample_world2\<lparr>mail_ok := False\<rparr>)) = [] \<and>
   tapir_users (tables (snd (CreateUserFromShareOwnerView (Some sample_form) manager_post 3 sample_world2)))
     \<noteq> []"
  by (simp add: CreateUserFromShareOwnerView_def CreateUserFromShareOwnerView_dispatch_def
        PermissionRequiredMixin_dispatch_def FormView_dispatch_def CreateUserFromShareOwnerView_post_def
        CreateUserFromShareOwnerView_form_valid_def CreateUserFromShareOwnerView_get_form_kwargs_def
        construct_instance_def copy_user_info_def blank_info_fields_def TapirUser_new_def
        get_object_or_404_def atomic_def seq_def ret_def create_tapir_user_def db_write_def
        save_share_owner_def move_log_entries_def send_mail_def Let_def fresh_pk_def
        sample_world2_def sample_world_def sample_tables_def sample_owner_def sample_form_def
        manager_post_def admin_post_def has_perm_def)

section \<open>Searching the roster\<close>

text \<open>The substring test of the name search is the usual one.\<close>

lemma starts_with_iff: "starts_with s t \<longleftrightarrow> (\<exists>q. s = t @ q)"
  by (induction s t rule: starts_with.induct) auto

lemma contains_str_iff: "contains_str s t \<longleftrightarrow> (\<exists>p q. s = p @ t @ q)"
proof (induction s)
  case Nil
  then show ?case by auto
next
  case (Cons c cs)
  show ?case
  proof
    assume "contains_str (c # cs) t"
    then consider "starts_with (c # cs) t" | "contains_str cs t" by auto
    then show "\<exists>p q. c # cs = p @ t @ q"
    proof cases
      case 1
      then obtain q where "c # cs = t @ q" by (auto simp: starts_with_iff)
      then have "c # cs = [] @ t @ q" by simp
      then show ?thesis by blast
    next
      case 2
      then obtain p q where "cs = p @ t @ q" using Cons.IH by auto
      then have "c # cs = (c # p) @ t @ q" by simp
      then show ?thesis by blast
    qed
  next
    assume "\<exists>p q. c # cs = p @ t @ q"
    then obtain p q where e: "c # cs = p @ t @ q" by blast
    show "contains_str (c # cs) t"
    proof (cases p)
      case Nil
      with e have "starts_with (c # cs) t" by (auto simp: starts_with_iff)
      then show ?thesis by simp
    next
      case (Cons x p')
      with e have "cs = p' @ t @ q" by simp
      then have "contains_str cs t" using Cons.IH by blast
      then show ?thesis by simp
    qed
  qed
qed

text \<open>
  A search term made of decimal digits selects the owners of the queryset whose member
  number is the value of the term, and the name search is not consulted; a term on which
  \<^verbatim>\<open>isdigit\<close> fails goes to the name search, whose result is returned without
  duplicates.
\<close>

lemma display_name_filter_decimal:
  assumes "v \<noteq> []" and "list_all is_decimal_char v"
  shows "ShareOwnerFilter_display_name_filter with_name queryset name v =
           Inr (filter (\<lambda>owner. owner_id owner = decimal_value v) queryset)"
proof -
  have "isdigit v"
    using assms by (auto simp: isdigit_def is_digit_char_def list_all_iff)
  then show ?thesis
    using assms by (simp add: ShareOwnerFilter_display_name_filter_def int_of_digits_def)
qed

lemma display_name_filter_name:
  assumes "\<not> isdigit v"
  shows "ShareOwnerFilter_display_name_filter (with_name_spec name_of) queryset name v =
           Inr (remdups (filter (\<lambda>owner. icontains (name_of owner) v) queryset))"
  using assms by (simp add: ShareOwnerFilter_display_name_filter_def with_name_spec_def)

lemma display_name_filter_sample_number:
  "ShareOwnerFilter_display_name_filter (with_name_spec last_name) [sample_owner, company_owner]
     ''display_name'' ''4'' = Inr [company_owner]"
  by (simp add: ShareOwnerFilter_display_name_filter_def isdigit_def is_digit_char_def
        is_decimal_char_def int_of_digits_def decimal_value_def sample_owner_def company_owner_def)

lemma icontains_sample: "icontains ''Smith'' ''sMiT''"
  by code_simp

lemma display_name_filter_sample_name:
  "ShareOwnerFilter_display_name_filter (with_name_spec last_name) [sample_owner]
     ''display_name'' ''sMiT'' = Inr [sample_owner]"
  using icontains_sample
  by (simp add: ShareOwnerFilter_display_name_filter_def isdigit_def is_digit_char_def
        is_decimal_char_def with_name_spec_def sample_owner_def)

text \<open>
  Claim C6, at the search term that consists of the character U+00B2 (superscript two):
  \<^verbatim>\<open>isdigit\<close> holds for it, so the filter takes the branch of the member number, and
  \<^verbatim>\<open>int\<close> raises \<^verbatim>\<open>ValueError\<close> on it. The search returns neither the owner
  with a given number nor the owners matched by name.
\<close>

theorem display_name_filter_superscript_digit_raises:
  "isdigit [CHR 0xB2] \<and>
   ShareOwnerFilter_display_name_filter with_name queryset name [CHR 0xB2] = Inl ValueError"
  by (simp add: ShareOwnerFilter_display_name_filter_def isdigit_def is_digit_char_def
        is_decimal_char_def int_of_digits_def)

section \<open>Filter values that are absent or empty\<close>

text \<open>
  The method of the welcome desk has a guard for an empty value, which answers with the
  empty set. The filter library never lets an empty value come that far.
\<close>

lemma welcome_desk_method_guard:
  "ShareOwnerFilterWelcomeDesk_display_name_filter with_name queryset name [] = Inr []"
  by (simp add: ShareOwnerFilterWelcomeDesk_display_name_filter_def)

text \<open>
  Claim C7. Every filter of the roster (the ten that are declared with a method and the
  four that are generated for a model field) and the name filter of the welcome desk, given
  any candidate set and a value that is absent (\<^verbatim>\<open>None\<close>) or, for a text value, empty:
  the filter returns the candidate set as it is and raises no error.
\<close>

theorem empty_filter_value_is_no_op:
  "list_all (\<lambda>(name, f). f queryset None = Inr queryset \<and> f queryset (Some []) = Inr queryset)
     (ShareOwnerFilter_filters ops @ ShareOwnerFilterWelcomeDesk_filters ops) \<and>
   list_all (\<lambda>(name, f). f queryset None = Inr queryset) (ShareOwnerFilter_boolean_filters ops) \<and>
   map fst (ShareOwnerFilter_filters ops) =
     [''status'', ''shift_attendance_mode'', ''registered_to_slot_with_capability'',
      ''has_capability'', ''not_has_capability'', ''abcd_week'', ''display_name''] \<and>
   map fst (ShareOwnerFilter_boolean_filters ops) =
     [''attended_welcome_session'', ''ratenzahlung'', ''is_company'', ''paid_membership_fee'',
      ''has_tapir_account'', ''has_unpaid_shares'', ''is_fully_paid''] \<and>
   map fst (ShareOwnerFilterWelcomeDesk_filters ops) = [''display_name'']"
  by (simp add: ShareOwnerFilter_filters_def ShareOwnerFilterWelcomeDesk_filters_def
        ShareOwnerFilter_boolean_filters_def FilterMethod_def FilterMethod_bool_def Filter_filter_def)

text \<open>With a value that is not empty the filters do narrow the candidate set.\<close>

lemma filters_narrow_on_values:
  "map (\<lambda>(name, f). f [sample_owner, company_owner] (Some ''4''))
     (ShareOwnerFilterWelcomeDesk_filters sample_queries) = [Inr [company_owner]]"
  "FilterMethod_bool has_tapir_account_filter ''has_tapir_account'' [sample_owner, company_owner]
     (Some True) = Inr []"
  "Filter_filter is_company [sample_owner, company_owner] (Some True) = Inr [company_owner]"
  by (simp_all add: ShareOwnerFilterWelcomeDesk_filters_def FilterMethod_def FilterMethod_bool_def
        Filter_filter_def ShareOwnerFilterWelcomeDesk_display_name_filter_def isdigit_def
        is_digit_char_def is_decimal_char_def int_of_digits_def decimal_value_def
        has_tapir_account_filter_def sample_queries_def sample_owner_def company_owner_def)

section \<open>The roster list\<close>

text \<open>
  Claim C10. When the filter set yields exactly one owner, the list view answers with a
  redirect to the page of that owner and the rendered list is dropped; when it yields no
  owner or more than one, the view answers with the rendered list. The world is not
  changed.
\<close>

theorem list_view_redirects_on_single_result:
  assumes "filterset (share_owners (tables w)) = Inr object_list"
  shows "(\<forall>owner. object_list = [owner] \<longrightarrow>
            ShareOwnerListView_get filterset render request a w =
              (Inr (HttpResponseRedirect (ShareOwnerUrl (owner_id owner))), w)) \<and>
         (length object_list \<noteq> 1 \<longrightarrow>
            ShareOwnerListView_get filterset render request a w = (Inr (render object_list), w))"
  using assms
  by (auto simp: ShareOwnerListView_get_def first_def ret_def raise_def Let_def)

theorem list_view_redirects_on_single_result_witness:
  "Inr (share_owners (tables sample_world2)) = (Inr [sample_owner] :: exn + share_owner list) \<and>
   ShareOwnerListView_get Inr HttpResponseList (manager_get Map.empty) () sample_world2
     = (Inr (HttpResponseRedirect (ShareOwnerUrl 3)), sample_world2) \<and>
   length (share_owners (tables sample_world3)) \<noteq> 1 \<and>
   ShareOwnerListView_get Inr HttpResponseList (manager_get Map.empty) () sample_world3
     = (Inr (HttpResponseList [sample_owner, company_owner]), sample_world3)"
proof -
  have one: "Inr (share_owners (tables sample_world2)) = (Inr [sample_owner] :: exn + share_owner list)"
    by (simp add: sample_world2_def sample_world_def sample_tables_def)
  have two: "Inr (share_owners (tables sample_world3))
      = (Inr [sample_owner, company_owner] :: exn + share_owner list)"
    by (simp add: sample_world3_def sample_world_def sample_tables_def)
  have len: "length (share_owners (tables sample_world3)) \<noteq> 1"
    by (simp add: sample_world3_def sample_world_def sample_tables_def)
  have id: "owner_id sample_owner = 3"
    by (simp add: sample_owner_def)
  from list_view_redirects_on_single_result [where filterset = Inr, OF one,
      of HttpResponseList "manager_get Map.empty" "()"] id
  have a: "ShareOwnerListView_get Inr HttpResponseList (manager_get Map.empty) () sample_world2
     = (Inr (HttpResponseRedirect (ShareOwnerUrl 3)), sample_world2)"
    by simp
  from list_view_redirects_on_single_result [where filterset = Inr, OF two,
      of HttpResponseList "manager_get Map.empty" "()"]
  have b: "ShareOwnerListView_get Inr HttpResponseList (manager_get Map.empty) () sample_world3
     = (Inr (HttpResponseList [sample_owner, company_owner]), sample_world3)"
    by simp
  from one a len b show ?thesis by blast
qed

end
